theory Spec2Isabelle
  imports Complex_Main "HOL-Library.Word"
begin

section \<open>The voice recorder's emotion classifier (src/VoiceRecorder.tsx)\<close>

text \<open>
  The component keeps a list of feature samples in a ref (\<open>emotionSamplesRef\<close>) and
  the label in React state (\<open>detectedEmotion\<close>). Every 200 ms an interval callback
  runs \<open>updateWaveform\<close> and then \<open>analyzeAudioEmotion\<close>, which reads one frame
  from the analyser, pushes its features, classifies and trims the list.

  JavaScript numbers are modelled as \<open>real\<close>: no rounding, no NaN and no infinity.
  The byte spectrum (\<open>Uint8Array\<close>) is a list of 8-bit words, read as numbers by
  \<open>unat\<close>. An exception is a value \<open>Inl\<close> of a sum type.
\<close>

subsection \<open>Data\<close>

type_synonym byte = "8 word"

datatype EmotionType = Happy | Neutral | Sad

datatype error = TypeError

text \<open>One element of \<open>emotionSamplesRef.current\<close> (line 28).\<close>

record emotion_sample =
  pitch :: real
  volume :: real
  variance :: real

text \<open>
  Lines 35 to 40 allocate \<open>dataArray\<close> and \<open>timeDomainArray\<close> with the same number of
  elements, \<open>bufferLength = analyser.frequencyBinCount\<close>, and let the analyser fill them. A
  frame is what the analyser wrote: the list of the pairs
  \<open>(dataArray[i], timeDomainArray[i])\<close> for \<open>i < bufferLength\<close>.
\<close>

type_synonym frame = "(byte \<times> real) list"

definition dataArray :: "frame \<Rightarrow> byte list" where
  "dataArray f = map fst f"

definition timeDomainArray :: "frame \<Rightarrow> real list" where
  "timeDomainArray f = map snd f"

definition bufferLength :: "frame \<Rightarrow> nat" where
  "bufferLength f = length f"

subsection \<open>Feature extraction (lines 42 to 62)\<close>

text \<open>The loop of lines 43 to 46; \<open>acc\<close> is the variable \<open>sum\<close> of the source.\<close>

fun sum_squares :: "real \<Rightarrow> real list \<Rightarrow> real" where
  "sum_squares acc [] = acc"
| "sum_squares acc (x # xs) = sum_squares (acc + x * x) xs"

definition rms_volume :: "real list \<Rightarrow> real" where
  "rms_volume xs = sqrt (sum_squares 0 xs / real (length xs))"

text \<open>
  The loop of lines 50 to 57 from index \<open>i\<close> on: the pair is \<open>(maxValue, maxIndex)\<close>,
  replaced only by a strictly larger bin.
\<close>

fun max_scan :: "byte list \<Rightarrow> nat \<Rightarrow> nat \<times> nat \<Rightarrow> nat \<times> nat" where
  "max_scan [] i (maxValue, maxIndex) = (maxValue, maxIndex)"
| "max_scan (d # ds) i (maxValue, maxIndex) =
     (if unat d > maxValue then max_scan ds (Suc i) (unat d, i)
      else max_scan ds (Suc i) (maxValue, maxIndex))"

definition maxIndex_of :: "byte list \<Rightarrow> nat" where
  "maxIndex_of ds = snd (max_scan ds 0 (0, 0))"

text \<open>
  \<open>audioContextRef.current?.sampleRate || 44100\<close> (line 58): the argument is the sample
  rate of the audio context held by the ref, \<open>None\<close> when the ref is null. A rate of 0 is
  falsy and is replaced as well.
\<close>

definition effective_sampleRate :: "real option \<Rightarrow> real" where
  "effective_sampleRate ctx =
     (case ctx of None \<Rightarrow> 44100 | Some r \<Rightarrow> if r = 0 then 44100 else r)"

text \<open>\<open>Array.prototype.reduce\<close> without an initial value: a TypeError on an empty array.\<close>

definition reduce_noinit :: "('a \<Rightarrow> 'a \<Rightarrow> 'a) \<Rightarrow> 'a list \<Rightarrow> error + 'a" where
  "reduce_noinit f xs = (case xs of [] \<Rightarrow> Inl TypeError | x # rest \<Rightarrow> Inr (foldl f x rest))"

definition bin_values :: "byte list \<Rightarrow> real list" where
  "bin_values ds = map (\<lambda>d. real (unat d)) ds"

definition extractFeatures :: "real option \<Rightarrow> frame \<Rightarrow> error + emotion_sample" where
  "extractFeatures ctx f =
     (let volume = rms_volume (timeDomainArray f);
          pitch = real (maxIndex_of (dataArray f)) * effective_sampleRate ctx
                    / real (bufferLength f * 2)
      in case reduce_noinit (\<lambda>a b. a + b) (bin_values (dataArray f)) of
           Inl e \<Rightarrow> Inl e
         | Inr bin_sum \<Rightarrow>
             (let mean = bin_sum / real (bufferLength f);
                  variance = foldl (\<lambda>acc val. acc + (val - mean) ^ 2) 0 (bin_values (dataArray f))
                               / real (bufferLength f)
              in Inr \<lparr>pitch = pitch, volume = volume, variance = variance\<rparr>))"

subsection \<open>Classification (lines 68 to 112)\<close>

definition average :: "(emotion_sample \<Rightarrow> real) \<Rightarrow> emotion_sample list \<Rightarrow> real" where
  "average field samples = foldl (\<lambda>acc s. acc + field s) 0 samples / real (length samples)"

definition pitchScore :: "emotion_sample list \<Rightarrow> real" where
  "pitchScore samples = min (max ((average pitch samples - 150) / 200) 0) 1"

definition volumeScore :: "emotion_sample list \<Rightarrow> real" where
  "volumeScore samples = min (max (average volume samples / 0.15) 0) 1"

definition varianceScore :: "emotion_sample list \<Rightarrow> real" where
  "varianceScore samples = min (max (average variance samples / 800) 0) 1"

definition happyScore :: "emotion_sample list \<Rightarrow> real" where
  "happyScore samples =
     (if pitchScore samples > 0.5 then 1 else pitchScore samples * 2) * 0.35 +
     (if volumeScore samples > 0.6 then 1 else volumeScore samples) * 0.35 +
     (if varianceScore samples > 0.4 then 1 else varianceScore samples * 1.5) * 0.3"

definition sadScore :: "emotion_sample list \<Rightarrow> real" where
  "sadScore samples =
     (if pitchScore samples < 0.4 then 1 else (1 - pitchScore samples) * 1.5) * 0.35 +
     (if volumeScore samples < 0.5 then 1 else (1 - volumeScore samples) * 1.2) * 0.4 +
     (if varianceScore samples < 0.35 then 1 else (1 - varianceScore samples) * 1.3) * 0.25"

definition classify :: "emotion_sample list \<Rightarrow> EmotionType" where
  "classify samples =
     (if happyScore samples > 0.45 \<and> happyScore samples > sadScore samples + 0.1 then Happy
      else if sadScore samples > 0.45 \<and> sadScore samples > happyScore samples + 0.1 then Sad
      else if \<bar>happyScore samples - sadScore samples\<bar> < 0.1
              \<and> (happyScore samples > 0.3 \<or> sadScore samples > 0.3)
           then (if happyScore samples > sadScore samples then Happy else Sad)
      else Neutral)"

subsection \<open>The component\<close>

text \<open>
  The row inserted into \<open>voice_notes\<close> (lines 178 to 184). Title and audio path are built
  from the clock and are left out.
\<close>

record voice_note =
  user_id :: string
  emotion :: EmotionType
  duration :: nat

text \<open>
  \<open>mediaRecorder.onstop\<close> is a closure created inside one call of \<open>startRecording\<close>.
  The constants \<open>detectedEmotion\<close>, \<open>recordingTime\<close> and \<open>user\<close> it mentions are
  those of the render in which \<open>startRecording\<close> was called: later renders bind new
  constants and do not change the ones the closure holds. The record holds these values.
\<close>

record onstop_closure =
  cap_detectedEmotion :: "EmotionType option"
  cap_recordingTime :: nat
  cap_user :: "string option"

record component =
  isRecording :: bool
  recordingTime :: nat
  detectedEmotion :: "EmotionType option"
  waveformData :: "real list"
  mediaRecorderRef :: "onstop_closure option"
  audioContextRef :: "real option"
  analyserRef :: bool
  emotionSamplesRef :: "emotion_sample list"

text \<open>The state of the first render (lines 17 to 28).\<close>

definition initial :: component where
  "initial = \<lparr>isRecording = False, recordingTime = 0, detectedEmotion = None,
              waveformData = replicate 20 0.3, mediaRecorderRef = None,
              audioContextRef = None, analyserRef = False, emotionSamplesRef = []\<rparr>"

text \<open>
  \<open>analyzeAudioEmotion\<close> (lines 31 to 119) on the frame the analyser delivers. The
  classification reads the list after the push and before the \<open>slice(-100)\<close> of line 116.
\<close>

definition analyzeAudioEmotion :: "frame \<Rightarrow> component \<Rightarrow> error + component" where
  "analyzeAudioEmotion f c =
     (if \<not> analyserRef c then Inr c
      else case extractFeatures (audioContextRef c) f of
             Inl e \<Rightarrow> Inl e
           | Inr s \<Rightarrow>
               (let samples = emotionSamplesRef c @ [s]
                in if length samples \<ge> 10
                   then Inr (c\<lparr>detectedEmotion := Some (classify samples),
                               emotionSamplesRef :=
                                 (if length samples > 100
                                  then drop (length samples - 100) samples
                                  else samples)\<rparr>)
                   else Inr (c\<lparr>emotionSamplesRef := samples\<rparr>)))"

text \<open>
  \<open>updateWaveform\<close> (lines 122 to 126): \<open>rnd i\<close> is the result of the i-th call of
  \<open>Math.random\<close> in this update.
\<close>

definition updateWaveform :: "(nat \<Rightarrow> real) \<Rightarrow> component \<Rightarrow> component" where
  "updateWaveform rnd c =
     c\<lparr>waveformData := map (\<lambda>i. rnd i * 0.7 + 0.3) [0 ..< length (waveformData c)]\<rparr>"

text \<open>
  The interval callback of lines 230 to 233. An exception thrown by the callback leaves the
  interval running, with the waveform already updated.
\<close>

definition interval_tick :: "(nat \<Rightarrow> real) \<times> frame \<Rightarrow> component \<Rightarrow> component" where
  "interval_tick t c =
     (case analyzeAudioEmotion (snd t) (updateWaveform (fst t) c) of
        Inl e \<Rightarrow> updateWaveform (fst t) c
      | Inr c' \<Rightarrow> c')"

fun run_ticks :: "component \<Rightarrow> ((nat \<Rightarrow> real) \<times> frame) list \<Rightarrow> component" where
  "run_ticks c [] = c"
| "run_ticks c (t # ts) = run_ticks (interval_tick t c) ts"

text \<open>The timer of lines 225 to 227.\<close>

definition timer_tick :: "component \<Rightarrow> component" where
  "timer_tick c = c\<lparr>recordingTime := recordingTime c + 1\<rparr>"

text \<open>
  \<open>startRecording\<close> (lines 128 to 237). \<open>media\<close> is the sample rate of the new audio
  context, \<open>None\<close> when \<open>getUserMedia\<close> rejects (caught at line 234). \<open>user\<close> is the
  value of \<open>useAuth\<close> in the render of the call.
\<close>

definition startRecording :: "string option \<Rightarrow> real option \<Rightarrow> component \<Rightarrow> component" where
  "startRecording user media c =
     (case media of
        None \<Rightarrow> c
      | Some sr \<Rightarrow>
          c\<lparr>audioContextRef := Some sr,
            analyserRef := True,
            mediaRecorderRef := Some \<lparr>cap_detectedEmotion = detectedEmotion c,
                                      cap_recordingTime = recordingTime c,
                                      cap_user = user\<rparr>,
            emotionSamplesRef := [],
            isRecording := True\<rparr>)"

text \<open>What the storage and the database answer while the note is saved.\<close>

datatype save_outcome = UploadError | DbError | Saved

text \<open>
  The handler of lines 148 to 219: the note inserted, if any, and the state after it. Without
  a user it returns at line 158, before the cleanup of lines 209 to 218.
\<close>

definition onstop :: "onstop_closure \<Rightarrow> save_outcome \<Rightarrow> component \<Rightarrow> voice_note option \<times> component" where
  "onstop cl outcome c =
     (let finalEmotion = (case cap_detectedEmotion cl of None \<Rightarrow> Neutral | Some e \<Rightarrow> e)
      in case cap_user cl of
           None \<Rightarrow> (None, c)
         | Some u \<Rightarrow>
             ((case outcome of
                 Saved \<Rightarrow> Some \<lparr>user_id = u, emotion = finalEmotion,
                                 duration = cap_recordingTime cl\<rparr>
               | _ \<Rightarrow> None),
              c\<lparr>audioContextRef := None, analyserRef := False, recordingTime := 0,
                detectedEmotion := None, waveformData := replicate 20 0.3\<rparr>))"

text \<open>
  \<open>stopRecording\<close> (lines 239 to 251): the click itself. It returns the handler that
  \<open>stop()\<close> fires, if any. The handler is asynchronous and reaches its cleanup only after the
  upload and the insert were answered.
\<close>

definition stopRecording :: "component \<Rightarrow> onstop_closure option \<times> component" where
  "stopRecording c =
     (case mediaRecorderRef c of
        None \<Rightarrow> (None, c)
      | Some cl \<Rightarrow>
          if isRecording c then (Some cl, c\<lparr>isRecording := False\<rparr>)
          else (None, c))"

text \<open>The click on stop and, with no other event in between, the handler it fires.\<close>

definition stop_and_save :: "save_outcome \<Rightarrow> component \<Rightarrow> voice_note option \<times> component" where
  "stop_and_save outcome c =
     (case stopRecording c of
        (None, c') \<Rightarrow> (None, c')
      | (Some cl, c') \<Rightarrow> onstop cl outcome c')"

subsection \<open>The formulas of the specification\<close>

text \<open>
  The definitions below follow the words of the specification (sections 4.1 and 8), not the
  source: the mean, the clamp, the two composite scores with the weight written first, and the
  decision policy. The claims compare them with the definitions above.
\<close>

definition spec_rms :: "real list \<Rightarrow> real" where
  "spec_rms xs = sqrt ((\<Sum>x\<leftarrow>xs. x\<^sup>2) / real (length xs))"

definition spec_mean :: "real list \<Rightarrow> real" where
  "spec_mean xs = sum_list xs / real (length xs)"

definition spec_population_variance :: "real list \<Rightarrow> real" where
  "spec_population_variance xs = spec_mean (map (\<lambda>s. (s - spec_mean xs)\<^sup>2) xs)"






subsection \<open>What the classification can see of the component\<close>

text \<open>The refs and the state that \<open>analyzeAudioEmotion\<close> reads or writes.\<close>

definition classifier_view ::
  "component \<Rightarrow> bool \<times> real option \<times> emotion_sample list \<times> EmotionType option" where
  "classifier_view c = (analyserRef c, audioContextRef c, emotionSamplesRef c, detectedEmotion c)"

subsection \<open>Concrete inputs\<close>

text \<open>
  Frames, samples and states used where a statement is evaluated at a concrete input.
\<close>

text \<open>A frame of at least one bin whose bins and samples are all zero.\<close>

definition silent :: "frame \<Rightarrow> bool" where
  "silent f = (f \<noteq> []
                \<and> (\<forall>b\<in>set (dataArray f). b = 0) \<and> (\<forall>x\<in>set (timeDomainArray f). x = 0))"

definition silent_frame :: frame where
  "silent_frame = [(0, 0), (0, 0)]"

definition silent_sample :: emotion_sample where
  "silent_sample = \<lparr>pitch = 0, volume = 0, variance = 0\<rparr>"

text \<open>A frame of three bins 3, 9, 9 with the samples 1, 0, -1.\<close>

definition example_frame :: frame where
  "example_frame = [(3, 1), (9, 0), (9, - 1)]"

text \<open>Two frames of two bins at full amplitude, bins 255, 0 and bins 35, 0, with the features \<open>extractFeatures\<close> gives them at 44100 Hz.\<close>

definition peaked_frame :: frame where
  "peaked_frame = [(255, 1), (0, 1)]"

definition flat_frame :: frame where
  "flat_frame = [(35, 1), (0, 1)]"

definition peaked_sample :: emotion_sample where
  "peaked_sample = \<lparr>pitch = 0, volume = 1, variance = 65025 / 4\<rparr>"

definition flat_sample :: emotion_sample where
  "flat_sample = \<lparr>pitch = 0, volume = 1, variance = 1225 / 4\<rparr>"

text \<open>A run of \<open>Math.random\<close> that returns 0 every time.\<close>

definition no_random :: "nat \<Rightarrow> real" where
  "no_random i = 0"

text \<open>A run of \<open>Math.random\<close> that returns 0.5 every time.\<close>

definition half_random :: "nat \<Rightarrow> real" where
  "half_random i = 1 / 2"

text \<open>A component with nine samples in its window and a live analyser.\<close>

definition nine_silent :: component where
  "nine_silent = initial\<lparr>analyserRef := True, emotionSamplesRef := replicate 9 silent_sample\<rparr>"

text \<open>A first session of ten silent frames, two seconds long, started by a logged-in user.\<close>

definition recorded_session :: component where
  "recorded_session =
     timer_tick (timer_tick
       (run_ticks (startRecording (Some ''u1'') (Some 44100) initial)
          (replicate 10 (no_random, silent_frame))))"

text \<open>The same frames in a session started without a user.\<close>

definition anonymous_session :: component where
  "anonymous_session =
     run_ticks (startRecording None (Some 44100) initial)
       (replicate 10 (no_random, silent_frame))"

section \<open>Auxiliary facts\<close>

text \<open>The accumulating loops and \<open>reduce\<close> calls compute sums.\<close>

lemma foldl_add_sum_list:
  "foldl (\<lambda>acc s. acc + g s) a xs = (a::real) + sum_list (map g xs)"
  by (induction xs arbitrary: a) simp_all

lemma sum_squares_sum_list: "sum_squares acc xs = acc + (\<Sum>x\<leftarrow>xs. x * x)"
  by (induction xs arbitrary: acc) simp_all

text \<open>The invariant of the scan for the dominant bin.\<close>

lemma max_scan_inv:
  "max_scan ds i (mv, mi) = (mv', mi') \<Longrightarrow>
     (mv' = mv \<and> mi' = mi \<and> (\<forall>x\<in>set ds. unat x \<le> mv)) \<or>
     (i \<le> mi' \<and> mi' < i + length ds \<and> unat (ds ! (mi' - i)) = mv' \<and> mv < mv'
        \<and> (\<forall>j < mi' - i. unat (ds ! j) < mv') \<and> (\<forall>x\<in>set ds. unat x \<le> mv'))"
proof (induction ds arbitrary: i mv mi)
  case Nil
  then show ?case by simp
next
  case (Cons d ds)
  show ?case
  proof (cases "unat d > mv")
    case True
    with Cons.prems have r: "max_scan ds (Suc i) (unat d, i) = (mv', mi')" by simp
    from Cons.IH [OF r] show ?thesis
    proof
      assume "mv' = unat d \<and> mi' = i \<and> (\<forall>x\<in>set ds. unat x \<le> unat d)"
      with True show ?thesis by auto
    next
      assume a: "Suc i \<le> mi' \<and> mi' < Suc i + length ds \<and> unat (ds ! (mi' - Suc i)) = mv' \<and> unat d < mv'
        \<and> (\<forall>j < mi' - Suc i. unat (ds ! j) < mv') \<and> (\<forall>x\<in>set ds. unat x \<le> mv')"
      then have "\<forall>j < mi' - i. unat ((d # ds) ! j) < mv'"
        by (auto simp: nth_Cons')
      with a True show ?thesis by (auto simp: nth_Cons')
    qed
  next
    case False
    with Cons.prems have r: "max_scan ds (Suc i) (mv, mi) = (mv', mi')" by simp
    from Cons.IH [OF r] show ?thesis
    proof
      assume "mv' = mv \<and> mi' = mi \<and> (\<forall>x\<in>set ds. unat x \<le> mv)"
      with False show ?thesis by auto
    next
      assume a: "Suc i \<le> mi' \<and> mi' < Suc i + length ds \<and> unat (ds ! (mi' - Suc i)) = mv' \<and> mv < mv'
        \<and> (\<forall>j < mi' - Suc i. unat (ds ! j) < mv') \<and> (\<forall>x\<in>set ds. unat x \<le> mv')"
      with False have "\<forall>j < mi' - i. unat ((d # ds) ! j) < mv'"
        by (auto simp: nth_Cons')
      with a False show ?thesis by (auto simp: nth_Cons')
    qed
  qed
qed

lemma maxIndex_of_first_max:
  assumes "ds \<noteq> []"
  shows "maxIndex_of ds < length ds
     \<and> (\<forall>j < length ds. unat (ds ! j) \<le> unat (ds ! maxIndex_of ds))
     \<and> (\<forall>j < maxIndex_of ds. unat (ds ! j) < unat (ds ! maxIndex_of ds))"
proof -
  obtain mv' mi' where r: "max_scan ds 0 (0, 0) = (mv', mi')" by (cases "max_scan ds 0 (0, 0)")
  then have mi: "maxIndex_of ds = mi'" by (simp add: maxIndex_of_def)
  from max_scan_inv [OF r] show ?thesis
  proof
    assume a: "mv' = 0 \<and> mi' = 0 \<and> (\<forall>x\<in>set ds. unat x \<le> 0)"
    then have "\<forall>j < length ds. unat (ds ! j) = 0" by simp
    with a assms mi show ?thesis by simp
  next
    assume "0 \<le> mi' \<and> mi' < 0 + length ds \<and> unat (ds ! (mi' - 0)) = mv' \<and> 0 < mv'
        \<and> (\<forall>j < mi' - 0. unat (ds ! j) < mv') \<and> (\<forall>x\<in>set ds. unat x \<le> mv')"
    with mi show ?thesis by (auto dest: nth_mem)
  qed
qed

lemma reduce_noinit_add:
  "xs \<noteq> [] \<Longrightarrow> reduce_noinit (\<lambda>a b. a + b) xs = Inr (sum_list (xs :: real list))"
  by (cases xs) (simp_all add: reduce_noinit_def foldl_add_sum_list [where g = "\<lambda>x. x", simplified])

lemma frame_lengths [simp]:
  "length (dataArray f) = length f" "length (timeDomainArray f) = length f"
  "(dataArray f = []) = (f = [])"
  by (simp_all add: dataArray_def timeDomainArray_def)

lemma extractFeatures_Inr:
  assumes "f \<noteq> []"
  shows "extractFeatures ctx f =
     Inr \<lparr>pitch = real (maxIndex_of (dataArray f)) * effective_sampleRate ctx
                    / real (length f * 2),
          volume = sqrt ((\<Sum>x\<leftarrow>timeDomainArray f. x * x) / real (length f)),
          variance = (\<Sum>s\<leftarrow>bin_values (dataArray f).
                        (s - sum_list (bin_values (dataArray f)) / real (length f)) ^ 2)
                      / real (length f)\<rparr>"
proof -
  from assms have "bin_values (dataArray f) \<noteq> []" by (simp add: bin_values_def)
  then show ?thesis
    by (simp add: extractFeatures_def reduce_noinit_add rms_volume_def sum_squares_sum_list
        bufferLength_def foldl_add_sum_list Let_def)
qed

lemma average_spec_mean: "average field w = spec_mean (map field w)"
  by (simp add: average_def spec_mean_def foldl_add_sum_list)





lemma score_bounds:
  "0 \<le> pitchScore w \<and> pitchScore w \<le> 1"
  "0 \<le> volumeScore w \<and> volumeScore w \<le> 1"
  "0 \<le> varianceScore w \<and> varianceScore w \<le> 1"
  by (simp_all add: pitchScore_def volumeScore_def varianceScore_def)

lemma happyScore_bounds: "0 \<le> happyScore w \<and> happyScore w \<le> 1"
proof -
  define a where "a = (if pitchScore w > 0.5 then 1 else pitchScore w * 2)"
  define b where "b = (if volumeScore w > 0.6 then 1 else volumeScore w)"
  define c where "c = (if varianceScore w > 0.4 then 1 else varianceScore w * 1.5)"
  have a: "0 \<le> a \<and> a \<le> 1" using score_bounds(1) [of w] by (simp add: a_def)
  have b: "0 \<le> b \<and> b \<le> 1" using score_bounds(2) [of w] by (simp add: b_def)
  have c: "0 \<le> c \<and> c \<le> 1" using score_bounds(3) [of w] by (simp add: c_def)
  have "happyScore w = a * 0.35 + b * 0.35 + c * 0.3"
    by (simp add: happyScore_def a_def b_def c_def)
  with a b c show ?thesis by simp
qed

lemma sadScore_bounds: "0 \<le> sadScore w \<and> sadScore w \<le> 1"
proof -
  define a where "a = (if pitchScore w < 0.4 then 1 else (1 - pitchScore w) * 1.5)"
  define b where "b = (if volumeScore w < 0.5 then 1 else (1 - volumeScore w) * 1.2)"
  define c where "c = (if varianceScore w < 0.35 then 1 else (1 - varianceScore w) * 1.3)"
  have a: "0 \<le> a \<and> a \<le> 1" using score_bounds(1) [of w] by (simp add: a_def)
  have b: "0 \<le> b \<and> b \<le> 1" using score_bounds(2) [of w] by (simp add: b_def)
  have c: "0 \<le> c \<and> c \<le> 1" using score_bounds(3) [of w] by (simp add: c_def)
  have "sadScore w = a * 0.35 + b * 0.4 + c * 0.25"
    by (simp add: sadScore_def a_def b_def c_def)
  with a b c show ?thesis by simp
qed


lemma updateWaveform_fields [simp]:
  "analyserRef (updateWaveform rnd c) = analyserRef c"
  "audioContextRef (updateWaveform rnd c) = audioContextRef c"
  "emotionSamplesRef (updateWaveform rnd c) = emotionSamplesRef c"
  "detectedEmotion (updateWaveform rnd c) = detectedEmotion c"
  by (simp_all add: updateWaveform_def)

lemma interval_tick_refs [simp]:
  "analyserRef (interval_tick t c) = analyserRef c"
  "audioContextRef (interval_tick t c) = audioContextRef c"
  by (simp_all add: interval_tick_def analyzeAudioEmotion_def Let_def split: sum.splits)

text \<open>One tick on a frame whose features are \<open>s\<close>.\<close>

lemma interval_tick_ok:
  assumes "analyserRef c" and "extractFeatures (audioContextRef c) (snd t) = Inr s"
  shows "emotionSamplesRef (interval_tick t c)
           = drop (length (emotionSamplesRef c @ [s]) - 100) (emotionSamplesRef c @ [s])"
    and "detectedEmotion (interval_tick t c)
           = (if 10 \<le> length (emotionSamplesRef c @ [s])
              then Some (classify (emotionSamplesRef c @ [s])) else detectedEmotion c)"
  using assms by (simp_all add: interval_tick_def analyzeAudioEmotion_def Let_def)



lemma run_ticks_append: "run_ticks c (ts @ us) = run_ticks (run_ticks c ts) us"
  by (induction ts arbitrary: c) simp_all

lemma run_ticks_refs [simp]:
  "analyserRef (run_ticks c ts) = analyserRef c"
  "audioContextRef (run_ticks c ts) = audioContextRef c"
  by (induction ts arbitrary: c) simp_all


text \<open>The window after a run of ticks on frames that do not raise.\<close>

lemma run_ticks_window:
  assumes "analyserRef c" and "length (emotionSamplesRef c) \<le> 100"
    and "map (\<lambda>t. extractFeatures (audioContextRef c) (snd t)) ts = map Inr ss"
  shows "emotionSamplesRef (run_ticks c ts)
           = drop (length (emotionSamplesRef c @ ss) - 100) (emotionSamplesRef c @ ss)"
  using assms
proof (induction ts arbitrary: c ss)
  case Nil
  then show ?case by simp
next
  case (Cons t ts)
  from Cons.prems(3) obtain s ss' where ss: "ss = s # ss'"
    and s: "extractFeatures (audioContextRef c) (snd t) = Inr s"
    and rest: "map (\<lambda>t. extractFeatures (audioContextRef c) (snd t)) ts = map Inr ss'"
    by (cases ss) auto
  let ?c = "interval_tick t c"
  have w: "emotionSamplesRef ?c
             = drop (length (emotionSamplesRef c @ [s]) - 100) (emotionSamplesRef c @ [s])"
    using Cons.prems(1) s by (rule interval_tick_ok)
  have len: "length (emotionSamplesRef ?c) \<le> 100"
    using Cons.prems(2) by (simp add: w)
  have "emotionSamplesRef (run_ticks ?c ts)
          = drop (length (emotionSamplesRef ?c @ ss') - 100) (emotionSamplesRef ?c @ ss')"
    using Cons.prems(1) len rest by (intro Cons.IH) simp_all
  also have "\<dots> = drop (length (emotionSamplesRef c @ ss) - 100) (emotionSamplesRef c @ ss)"
  proof (cases "length (emotionSamplesRef c) = 100")
    case True
    then show ?thesis by (simp add: w ss)
  next
    case False
    with Cons.prems(2) have "length (emotionSamplesRef c) < 100" by simp
    then show ?thesis by (simp add: w ss)
  qed
  finally show ?case by simp
qed

lemma startRecording_fields [simp]:
  "analyserRef (startRecording user (Some sr) c)"
  "audioContextRef (startRecording user (Some sr) c) = Some sr"
  "emotionSamplesRef (startRecording user (Some sr) c) = []"
  "detectedEmotion (startRecording user (Some sr) c) = detectedEmotion c"
  by (simp_all add: startRecording_def)

lemma sum_list_all_zero: "\<forall>x\<in>set xs. g x = (0::real) \<Longrightarrow> sum_list (map g xs) = 0"
  by (induction xs) simp_all

lemma maxIndex_of_zeros:
  assumes "\<forall>b\<in>set ds. b = 0"
  shows "maxIndex_of ds = 0"
proof (cases "ds = []")
  case True
  then show ?thesis by (simp add: maxIndex_of_def)
next
  case False
  from maxIndex_of_first_max [OF False]
  have lt: "maxIndex_of ds < length ds"
    and least: "\<forall>j < maxIndex_of ds. unat (ds ! j) < unat (ds ! maxIndex_of ds)" by simp_all
  from lt assms have "ds ! maxIndex_of ds = 0" by simp
  with least show ?thesis by (cases "maxIndex_of ds") auto
qed

lemma extractFeatures_silent:
  assumes "silent f"
  shows "extractFeatures ctx f = Inr silent_sample"
proof -
  from assms have ne: "f \<noteq> []" and z: "\<forall>b\<in>set (dataArray f). b = 0"
    and t: "\<forall>x\<in>set (timeDomainArray f). x = 0" by (simp_all add: silent_def)
  have v: "\<forall>x\<in>set (bin_values (dataArray f)). x = 0" using z by (auto simp: bin_values_def)
  have s0: "sum_list (bin_values (dataArray f)) = 0"
    using sum_list_all_zero [of "bin_values (dataArray f)" "\<lambda>x. x"] v by simp
  have s1: "(\<Sum>s\<leftarrow>bin_values (dataArray f). s\<^sup>2) = 0"
    using v by (intro sum_list_all_zero) simp
  have s2: "(\<Sum>x\<leftarrow>timeDomainArray f. x * x) = 0"
    using t by (intro sum_list_all_zero) simp
  show ?thesis
    by (simp add: extractFeatures_Inr [OF ne] maxIndex_of_zeros [OF z] s0 s1 s2 silent_sample_def)
qed

lemma silent_silent_frame: "silent silent_frame"
  by (simp add: silent_def silent_frame_def dataArray_def timeDomainArray_def)

text \<open>The scores of a window of silent samples.\<close>

lemma scores_silent:
  assumes "0 < k"
  shows "pitchScore (replicate k silent_sample) = 0"
    and "volumeScore (replicate k silent_sample) = 0"
    and "varianceScore (replicate k silent_sample) = 0"
    and "happyScore (replicate k silent_sample) = 0"
    and "sadScore (replicate k silent_sample) = 1"
    and "classify (replicate k silent_sample) = Sad"
proof -
  have a: "average field (replicate k silent_sample) = field silent_sample" for field
    using assms by (simp add: average_spec_mean spec_mean_def sum_list_replicate)
  show p: "pitchScore (replicate k silent_sample) = 0"
    unfolding pitchScore_def a by (simp add: silent_sample_def)
  show v: "volumeScore (replicate k silent_sample) = 0"
    unfolding volumeScore_def a by (simp add: silent_sample_def)
  show s: "varianceScore (replicate k silent_sample) = 0"
    unfolding varianceScore_def a by (simp add: silent_sample_def)
  show h: "happyScore (replicate k silent_sample) = 0"
    by (simp add: happyScore_def p v s)
  show d: "sadScore (replicate k silent_sample) = 1"
    by (simp add: sadScore_def p v s)
  show "classify (replicate k silent_sample) = Sad"
    by (simp add: classify_def h d)
qed

lemma run_ticks_last_label:
  assumes "analyserRef c" and "length (emotionSamplesRef c) \<le> 100"
    and "map (\<lambda>t. extractFeatures (audioContextRef c) (snd t)) (ts @ [t]) = map Inr (ss @ [s])"
    and "10 \<le> length (emotionSamplesRef c) + length ts + 1"
  shows "detectedEmotion (run_ticks c (ts @ [t]))
           = Some (classify (drop (length (emotionSamplesRef c @ ss) - 100) (emotionSamplesRef c @ ss) @ [s]))"
proof -
  from assms(3) have len: "length ts = length ss"
    using map_eq_imp_length_eq by fastforce
  with assms(3) have pre: "map (\<lambda>t. extractFeatures (audioContextRef c) (snd t)) ts = map Inr ss"
    and last: "extractFeatures (audioContextRef c) (snd t) = Inr s" by simp_all
  let ?c = "run_ticks c ts"
  have w: "emotionSamplesRef ?c
             = drop (length (emotionSamplesRef c @ ss) - 100) (emotionSamplesRef c @ ss)"
    using assms(1,2) pre by (rule run_ticks_window)
  have a: "analyserRef ?c" using assms(1) by simp
  have l: "extractFeatures (audioContextRef ?c) (snd t) = Inr s" using last by simp
  have "10 \<le> length (emotionSamplesRef ?c @ [s])"
    using assms(4) len by (simp add: w)
  with interval_tick_ok(2) [OF a l] show ?thesis
    by (simp add: run_ticks_append w)
qed

lemma interval_tick_session [simp]:
  "isRecording (interval_tick t c) = isRecording c"
  "recordingTime (interval_tick t c) = recordingTime c"
  "mediaRecorderRef (interval_tick t c) = mediaRecorderRef c"
  by (simp_all add: interval_tick_def analyzeAudioEmotion_def updateWaveform_def Let_def
      split: sum.splits)

lemma run_ticks_session [simp]:
  "isRecording (run_ticks c ts) = isRecording c"
  "recordingTime (run_ticks c ts) = recordingTime c"
  "mediaRecorderRef (run_ticks c ts) = mediaRecorderRef c"
  by (induction ts arbitrary: c) simp_all

lemma extractFeatures_flat: "extractFeatures (Some 44100) flat_frame = Inr flat_sample"
  by (simp add: extractFeatures_def flat_frame_def flat_sample_def rms_volume_def dataArray_def
      timeDomainArray_def maxIndex_of_def reduce_noinit_def bin_values_def bufferLength_def
      Let_def power2_eq_square)

lemma extractFeatures_peaked: "extractFeatures (Some 44100) peaked_frame = Inr peaked_sample"
  by (simp add: extractFeatures_def peaked_frame_def peaked_sample_def rms_volume_def
      dataArray_def timeDomainArray_def maxIndex_of_def reduce_noinit_def bin_values_def
      bufferLength_def Let_def power2_eq_square)

text \<open>The two windows of the example for the order of classification and eviction.\<close>

lemma classify_flat_100: "classify (replicate 99 flat_sample @ [flat_sample]) = Sad"
proof -
  let ?w = "replicate 99 flat_sample @ [flat_sample]"
  have p: "pitchScore ?w = 0"
    by (simp add: pitchScore_def average_spec_mean spec_mean_def sum_list_replicate flat_sample_def)
  have v: "volumeScore ?w = 1"
    by (simp add: volumeScore_def average_spec_mean spec_mean_def sum_list_replicate flat_sample_def)
  have s: "varianceScore ?w = 49 / 128"
    by (simp add: varianceScore_def average_spec_mean spec_mean_def sum_list_replicate flat_sample_def)
  have h: "happyScore ?w = 0.35 + 49 / 128 * 1.5 * 0.3"
    unfolding happyScore_def p v s by simp
  have d: "sadScore ?w = 0.35 + (1 - 49 / 128) * 1.3 * 0.25"
    unfolding sadScore_def p v s by simp
  show ?thesis unfolding classify_def h d by simp
qed

lemma classify_peaked_101:
  "classify ((peaked_sample # replicate 99 flat_sample) @ [flat_sample]) = Happy"
proof -
  let ?w = "(peaked_sample # replicate 99 flat_sample) @ [flat_sample]"
  have p: "pitchScore ?w = 0"
    by (simp add: pitchScore_def average_spec_mean spec_mean_def sum_list_replicate
        flat_sample_def peaked_sample_def)
  have v: "volumeScore ?w = 1"
    by (simp add: volumeScore_def average_spec_mean spec_mean_def sum_list_replicate
        flat_sample_def peaked_sample_def)
  have s: "varianceScore ?w = 187525 / 323200"
    by (simp add: varianceScore_def average_spec_mean spec_mean_def sum_list_replicate
        flat_sample_def peaked_sample_def)
  have h: "happyScore ?w = 0.65"
    unfolding happyScore_def p v s by simp
  have d: "sadScore ?w = 0.35 + (1 - 187525 / 323200) * 1.3 * 0.25"
    unfolding sadScore_def p v s by simp
  show ?thesis unfolding classify_def h d by simp
qed

text \<open>A tick maps equal views to equal views, whatever the random numbers.\<close>

lemma classifier_view_tick:
  assumes "classifier_view c1 = classifier_view c2"
  shows "classifier_view (interval_tick (r1, f) c1) = classifier_view (interval_tick (r2, f) c2)"
  using assms
  by (simp add: classifier_view_def interval_tick_def analyzeAudioEmotion_def Let_def
      split: sum.splits)

lemma classifier_view_run:
  assumes "classifier_view c1 = classifier_view c2" and "map snd ts1 = map snd ts2"
  shows "classifier_view (run_ticks c1 ts1) = classifier_view (run_ticks c2 ts2)"
  using assms
proof (induction ts1 arbitrary: ts2 c1 c2)
  case Nil
  then show ?case by simp
next
  case (Cons t ts1)
  from Cons.prems(2) obtain t' ts2' where ts2: "ts2 = t' # ts2'" and f: "snd t = snd t'"
    and rest: "map snd ts1 = map snd ts2'" by (cases ts2) auto
  have "classifier_view (interval_tick (fst t, snd t) c1)
          = classifier_view (interval_tick (fst t', snd t) c2)"
    using Cons.prems(1) by (rule classifier_view_tick)
  then have "classifier_view (interval_tick t c1) = classifier_view (interval_tick t' c2)"
    by (metis f prod.collapse)
  then show ?case using rest by (simp add: ts2 Cons.IH)
qed

text \<open>The label at the end of a session of silent frames.\<close>

lemma silent_run_label:
  assumes "analyserRef c" and "emotionSamplesRef c = []"
    and "\<forall>t\<in>set ts. silent (snd t)" and "10 \<le> length ts"
  shows "detectedEmotion (run_ticks c ts)
           = Some (classify (replicate (Suc (min (length ts - 1) 100)) silent_sample))"
proof -
  from assms(4) obtain ts' t where ts: "ts = ts' @ [t]"
    by (cases ts rule: rev_cases) auto
  have m: "map (\<lambda>t. extractFeatures (audioContextRef c) (snd t)) (ts' @ [t])
             = map Inr (replicate (length ts') silent_sample @ [silent_sample])"
    using assms(3) unfolding ts
    by (auto simp: extractFeatures_silent map_replicate_const [symmetric])
  have "detectedEmotion (run_ticks c (ts' @ [t]))
          = Some (classify (drop (length (emotionSamplesRef c @ replicate (length ts') silent_sample) - 100)
                   (emotionSamplesRef c @ replicate (length ts') silent_sample) @ [silent_sample]))"
    using assms(1) _ m
    by (rule run_ticks_last_label) (use assms(2,4) ts in simp_all)
  then show ?thesis
    by (simp add: ts assms(2) replicate_append_same min_def)
qed

lemma timer_tick_fields [simp]:
  "detectedEmotion (timer_tick c) = detectedEmotion c"
  "isRecording (timer_tick c) = isRecording c"
  "mediaRecorderRef (timer_tick c) = mediaRecorderRef c"
  "recordingTime (timer_tick c) = recordingTime c + 1"
  by (simp_all add: timer_tick_def)

lemma recorded_session_label: "detectedEmotion recorded_session = Some Sad"
  unfolding recorded_session_def
  by (simp, subst silent_run_label) (simp_all add: silent_silent_frame scores_silent)

text \<open>The note of a first session, whatever its frames.\<close>

lemma stale_note:
  "fst (stop_and_save Saved (run_ticks (startRecording (Some u) (Some sr) initial) ts))
     = Some \<lparr>user_id = u, emotion = Neutral, duration = 0\<rparr>"
proof -
  let ?c = "run_ticks (startRecording (Some u) (Some sr) initial) ts"
  have "isRecording ?c" by (simp add: startRecording_def)
  moreover have "mediaRecorderRef ?c
      = Some \<lparr>cap_detectedEmotion = None, cap_recordingTime = 0, cap_user = Some u\<rparr>"
    by (simp add: startRecording_def initial_def)
  ultimately show ?thesis
    by (simp add: stop_and_save_def stopRecording_def onstop_def Let_def)
qed

lemma anonymous_session_label: "detectedEmotion anonymous_session = Some Sad"
  unfolding anonymous_session_def
  by (subst silent_run_label) (simp_all add: silent_silent_frame scores_silent)


section \<open>The claims\<close>

subsection \<open>C1: the classification of an eligible window\<close>



subsection \<open>C2: the features of a frame\<close>

text \<open>
  Claim C2. For a frame of N bins and N samples (N at least 1) and a sample rate other than 0,
  the loudness is the root of the mean of the squared samples, the pitch is
  \<open>i * sampleRate / (N * 2)\<close> where \<open>i\<close> is the lowest index of a maximal bin, and the
  variance is the population variance of the bins around their mean. A sample rate of 0 is
  falsy in line 58 and is replaced by 44100; a capture rate is positive.
\<close>

theorem ingestFrame_features:
  assumes "f \<noteq> []" and "sampleRate \<noteq> 0"
  shows "\<exists>i < length (dataArray f).
           (\<forall>j < length (dataArray f). unat (dataArray f ! j) \<le> unat (dataArray f ! i))
         \<and> (\<forall>j < i. unat (dataArray f ! j) < unat (dataArray f ! i))
         \<and> extractFeatures (Some sampleRate) f
             = Inr \<lparr>pitch = real i * sampleRate / real (length (dataArray f) * 2),
                    volume = spec_rms (timeDomainArray f),
                    variance = spec_population_variance (bin_values (dataArray f))\<rparr>"
proof -
  let ?i = "maxIndex_of (dataArray f)"
  have ne: "dataArray f \<noteq> []" using assms(1) by simp
  have r: "effective_sampleRate (Some sampleRate) = sampleRate"
    using assms(2) by (simp add: effective_sampleRate_def)
  have "extractFeatures (Some sampleRate) f
          = Inr \<lparr>pitch = real ?i * sampleRate / real (length (dataArray f) * 2),
                 volume = spec_rms (timeDomainArray f),
                 variance = spec_population_variance (bin_values (dataArray f))\<rparr>"
    by (simp add: extractFeatures_Inr [OF assms(1)] r spec_rms_def spec_population_variance_def
        spec_mean_def bin_values_def power2_eq_square o_def)
  with maxIndex_of_first_max [OF ne] show ?thesis by blast
qed

text \<open>The theorem at a frame of three bins, sampled at 44100 Hz.\<close>

theorem ingestFrame_features_witness:
  "example_frame \<noteq> [] \<and> (44100::real) \<noteq> 0
   \<and> (\<exists>i < length (dataArray example_frame).
           (\<forall>j < length (dataArray example_frame).
               unat (dataArray example_frame ! j) \<le> unat (dataArray example_frame ! i))
         \<and> (\<forall>j < i. unat (dataArray example_frame ! j) < unat (dataArray example_frame ! i))
         \<and> extractFeatures (Some 44100) example_frame
             = Inr \<lparr>pitch = real i * 44100 / real (length (dataArray example_frame) * 2),
                    volume = spec_rms (timeDomainArray example_frame),
                    variance = spec_population_variance (bin_values (dataArray example_frame))\<rparr>)"
proof -
  have h1: "example_frame \<noteq> []" by (simp add: example_frame_def)
  have h2: "(44100::real) \<noteq> 0" by simp
  from h1 h2 ingestFrame_features [OF h1 h2] show ?thesis by blast
qed

subsection \<open>C7: the composite scores stay in [0, 1]\<close>

text \<open>
  Claim C7. For every window, and so for every eligible one, \<open>happyScore\<close> and
  \<open>sadScore\<close> lie between 0 and 1: the three scores are clamped before the boosts, every
  boosted term is at most 1, and the weights of each composite sum to 1.
\<close>

theorem composite_scores_bounded:
  "0 \<le> happyScore window \<and> happyScore window \<le> 1
   \<and> 0 \<le> sadScore window \<and> sadScore window \<le> 1"
  using happyScore_bounds [of window] sadScore_bounds [of window] by simp

subsection \<open>C9: feature extraction does not raise\<close>

text \<open>
  Claim C9. For a frame of N bins and N samples with N at least 1, neither the feature
  extraction nor the whole of \<open>analyzeAudioEmotion\<close> raises, whatever the state; and when
  every bin and every sample is zero, the features are pitch 0, loudness 0 and variance 0.
\<close>

theorem ingestFrame_never_raises:
  assumes "f \<noteq> []"
  shows "(\<exists>s. extractFeatures ctx f = Inr s)
       \<and> (\<exists>c'. analyzeAudioEmotion f c = Inr c')
       \<and> ((\<forall>b\<in>set (dataArray f). b = 0) \<and> (\<forall>x\<in>set (timeDomainArray f). x = 0)
            \<longrightarrow> extractFeatures ctx f = Inr \<lparr>pitch = 0, volume = 0, variance = 0\<rparr>)"
proof (intro conjI impI)
  show "\<exists>s. extractFeatures ctx f = Inr s"
    by (simp add: extractFeatures_Inr [OF assms])
  show "\<exists>c'. analyzeAudioEmotion f c = Inr c'"
    by (simp add: analyzeAudioEmotion_def extractFeatures_Inr [OF assms] Let_def)
  assume "(\<forall>b\<in>set (dataArray f). b = 0) \<and> (\<forall>x\<in>set (timeDomainArray f). x = 0)"
  with assms have "silent f" by (simp add: silent_def)
  then show "extractFeatures ctx f = Inr \<lparr>pitch = 0, volume = 0, variance = 0\<rparr>"
    by (simp add: extractFeatures_silent silent_sample_def)
qed

text \<open>The theorem at the silent frame.\<close>

theorem ingestFrame_never_raises_witness:
  "silent_frame \<noteq> [] \<and> silent silent_frame
   \<and> (\<exists>s. extractFeatures (Some 44100) silent_frame = Inr s)
   \<and> (\<exists>c'. analyzeAudioEmotion silent_frame nine_silent = Inr c')
   \<and> extractFeatures (Some 44100) silent_frame = Inr \<lparr>pitch = 0, volume = 0, variance = 0\<rparr>"
proof -
  have h1: "silent_frame \<noteq> []" by (simp add: silent_frame_def)
  have z: "(\<forall>b\<in>set (dataArray silent_frame). b = 0) \<and> (\<forall>x\<in>set (timeDomainArray silent_frame). x = 0)"
    by (simp add: silent_frame_def dataArray_def timeDomainArray_def)
  from h1 z silent_silent_frame
    ingestFrame_never_raises [OF h1, of "Some 44100" nine_silent]
  show ?thesis by blast
qed

subsection \<open>C3: below the minimum window\<close>




subsection \<open>C4: the window is the 100 most recent samples\<close>

text \<open>
  Claim C4. In a session whose frames have at least one bin, after each tick \<open>k\<close> the
  window holds the samples of the most recent \<open>min k 100\<close> frames in arrival order: its
  length never exceeds 100 after a tick, and is exactly 100 once more than 100 frames arrived.
\<close>

theorem window_fifo:
  assumes "map (\<lambda>t. extractFeatures (Some sr) (snd t)) ts = map Inr ss"
    and "k \<le> length ts"
  shows "emotionSamplesRef (run_ticks (startRecording user (Some sr) c) (take k ts))
           = drop (k - 100) (take k ss)
       \<and> length (emotionSamplesRef (run_ticks (startRecording user (Some sr) c) (take k ts))) \<le> 100
       \<and> (100 < k \<longrightarrow>
            length (emotionSamplesRef (run_ticks (startRecording user (Some sr) c) (take k ts))) = 100)"
proof -
  let ?c = "startRecording user (Some sr) c"
  from assms(1) have len: "length ts = length ss"
    using map_eq_imp_length_eq by fastforce
  have "map (\<lambda>t. extractFeatures (audioContextRef ?c) (snd t)) (take k ts) = map Inr (take k ss)"
    using assms(1) by (simp add: take_map [symmetric])
  then have "emotionSamplesRef (run_ticks ?c (take k ts))
               = drop (length (emotionSamplesRef ?c @ take k ss) - 100) (emotionSamplesRef ?c @ take k ss)"
    by (intro run_ticks_window) simp_all
  then have w: "emotionSamplesRef (run_ticks ?c (take k ts)) = drop (k - 100) (take k ss)"
    using assms(2) len by simp
  show ?thesis using assms(2) len by (auto simp: w)
qed

text \<open>The theorem at 100 silent frames followed by one other frame: the first silent frame is gone.\<close>

theorem window_fifo_witness:
  "map (\<lambda>t. extractFeatures (Some 44100) (snd t))
       (replicate 100 (no_random, silent_frame) @ [(no_random, flat_frame)])
     = map Inr (replicate 100 silent_sample @ [flat_sample])
   \<and> (101::nat) \<le> length (replicate 100 (no_random, silent_frame) @ [(no_random, flat_frame)])
   \<and> emotionSamplesRef (run_ticks (startRecording None (Some 44100) initial)
        (take 101 (replicate 100 (no_random, silent_frame) @ [(no_random, flat_frame)])))
      = replicate 99 silent_sample @ [flat_sample]"
proof -
  have f: "extractFeatures (Some 44100) flat_frame = Inr flat_sample"
    by (simp add: extractFeatures_def flat_frame_def flat_sample_def rms_volume_def dataArray_def
        timeDomainArray_def maxIndex_of_def reduce_noinit_def bin_values_def bufferLength_def
        Let_def power2_eq_square)
  have h1: "map (\<lambda>t. extractFeatures (Some 44100) (snd t))
       (replicate 100 (no_random, silent_frame) @ [(no_random, flat_frame)])
     = map Inr (replicate 100 silent_sample @ [flat_sample])"
    by (simp add: extractFeatures_silent [OF silent_silent_frame] f)
  have h2: "(101::nat) \<le> length (replicate 100 (no_random, silent_frame) @ [(no_random, flat_frame)])"
    by simp
  have d: "drop (101 - 100) (take 101 (replicate 100 silent_sample @ [flat_sample]))
             = replicate 99 silent_sample @ [flat_sample]"
    by simp
  from h1 h2 window_fifo [OF h1 h2, of None initial] show ?thesis
    by (simp only: d)
qed

subsection \<open>C5: a silent session\<close>

text \<open>
  Claim C5, as amended. In a session of at least 10 frames whose bins and samples are all
  zero, every classified window is made of samples (0, 0, 0): the pitch, loudness and variance
  scores are 0, \<open>happyScore\<close> is 0, below its threshold, and \<open>sadScore\<close> is 1, above
  its threshold 0.45 and above \<open>happyScore + 0.1\<close>; the label is sad.
\<close>

theorem silent_session_is_sad:
  assumes "\<forall>t\<in>set ts. silent (snd t)" and "10 \<le> length ts"
  shows "\<exists>k\<ge>10.
           detectedEmotion (run_ticks (startRecording user (Some sr) c) ts)
             = Some (classify (replicate k silent_sample))
         \<and> pitchScore (replicate k silent_sample) = 0
         \<and> volumeScore (replicate k silent_sample) = 0
         \<and> varianceScore (replicate k silent_sample) = 0
         \<and> happyScore (replicate k silent_sample) = 0
         \<and> sadScore (replicate k silent_sample) = 1
         \<and> detectedEmotion (run_ticks (startRecording user (Some sr) c) ts) = Some Sad"
proof -
  let ?k = "Suc (min (length ts - 1) 100)"
  have k: "10 \<le> ?k" using assms(2) by simp
  have "detectedEmotion (run_ticks (startRecording user (Some sr) c) ts)
          = Some (classify (replicate ?k silent_sample))"
    using _ _ assms by (rule silent_run_label) simp_all
  with k show ?thesis
    using scores_silent [of ?k] by (intro exI [of _ ?k]) simp
qed

text \<open>The theorem at twelve silent frames.\<close>

theorem silent_session_is_sad_witness:
  "silent silent_frame
   \<and> 10 \<le> length (replicate 12 (no_random, silent_frame))
   \<and> (\<exists>k\<ge>10.
           detectedEmotion (run_ticks (startRecording None (Some 48000) initial)
               (replicate 12 (no_random, silent_frame)))
             = Some (classify (replicate k silent_sample))
         \<and> pitchScore (replicate k silent_sample) = 0
         \<and> volumeScore (replicate k silent_sample) = 0
         \<and> varianceScore (replicate k silent_sample) = 0
         \<and> happyScore (replicate k silent_sample) = 0
         \<and> sadScore (replicate k silent_sample) = 1
         \<and> detectedEmotion (run_ticks (startRecording None (Some 48000) initial)
               (replicate 12 (no_random, silent_frame))) = Some Sad)"
proof -
  have h1: "\<forall>t\<in>set (replicate 12 (no_random, silent_frame)). silent (snd t)"
    by (simp add: silent_silent_frame)
  have h2: "10 \<le> length (replicate 12 (no_random, silent_frame))" by simp
  from silent_silent_frame h2 silent_session_is_sad [OF h1 h2, of None 48000 initial]
  show ?thesis by blast
qed

text \<open>Ten silent frames end with the label sad, not neutral.\<close>

theorem silent_session_counterexample:
  "silent silent_frame
   \<and> detectedEmotion (run_ticks (startRecording None (Some 44100) initial)
        (replicate 10 (no_random, silent_frame))) = Some Sad
   \<and> detectedEmotion (run_ticks (startRecording None (Some 44100) initial)
        (replicate 10 (no_random, silent_frame))) \<noteq> Some Neutral"
  using anonymous_session_label silent_silent_frame by (simp add: anonymous_session_def)

subsection \<open>C6: classification comes before eviction\<close>

text \<open>
  Claim C6, as amended. The tick classifies the window as it is after the push and before
  line 116 trims it: the at most 100 samples kept by the previous tick and the new one, so at
  most 101 samples. The tick at which the 101st frame arrives averages all 101 frames; the
  window is cut to the most recent 100 after that.
\<close>

theorem classification_before_eviction:
  assumes "map (\<lambda>t. extractFeatures (Some sr) (snd t)) (ts @ [t]) = map Inr (ss @ [s])"
    and "9 \<le> length ts"
  shows "detectedEmotion (run_ticks (startRecording user (Some sr) c) (ts @ [t]))
           = Some (classify (drop (length ss - 100) ss @ [s]))
       \<and> length (drop (length ss - 100) ss @ [s]) \<le> 101
       \<and> emotionSamplesRef (run_ticks (startRecording user (Some sr) c) (ts @ [t]))
           = drop (length (ss @ [s]) - 100) (ss @ [s])
       \<and> (length ts = 100 \<longrightarrow>
            detectedEmotion (run_ticks (startRecording user (Some sr) c) (ts @ [t]))
              = Some (classify (ss @ [s])))"
proof -
  let ?c = "startRecording user (Some sr) c"
  from assms(1) have len: "length ts = length ss"
    using map_eq_imp_length_eq by fastforce
  have m: "map (\<lambda>t. extractFeatures (audioContextRef ?c) (snd t)) (ts @ [t]) = map Inr (ss @ [s])"
    using assms(1) by simp
  have "detectedEmotion (run_ticks ?c (ts @ [t]))
          = Some (classify (drop (length (emotionSamplesRef ?c @ ss) - 100) (emotionSamplesRef ?c @ ss) @ [s]))"
    using _ _ m by (rule run_ticks_last_label) (use assms(2) in simp_all)
  then have l: "detectedEmotion (run_ticks ?c (ts @ [t]))
          = Some (classify (drop (length ss - 100) ss @ [s]))" by simp
  have "emotionSamplesRef (run_ticks ?c (ts @ [t]))
          = drop (length (emotionSamplesRef ?c @ (ss @ [s])) - 100) (emotionSamplesRef ?c @ (ss @ [s]))"
    using _ _ m by (rule run_ticks_window) simp_all
  then have w: "emotionSamplesRef (run_ticks ?c (ts @ [t]))
          = drop (length (ss @ [s]) - 100) (ss @ [s])" by simp
  show ?thesis using len by (simp add: l w)
qed

text \<open>The theorem at 101 frames.\<close>

theorem classification_before_eviction_witness:
  "map (\<lambda>t. extractFeatures (Some 44100) (snd t))
       (((no_random, peaked_frame) # replicate 99 (no_random, flat_frame)) @ [(no_random, flat_frame)])
     = map Inr ((peaked_sample # replicate 99 flat_sample) @ [flat_sample])
   \<and> 9 \<le> length ((no_random, peaked_frame) # replicate 99 (no_random, flat_frame))
   \<and> length ((no_random, peaked_frame) # replicate 99 (no_random, flat_frame)) = 100
   \<and> detectedEmotion (run_ticks (startRecording None (Some 44100) initial)
        (((no_random, peaked_frame) # replicate 99 (no_random, flat_frame)) @ [(no_random, flat_frame)]))
      = Some (classify ((peaked_sample # replicate 99 flat_sample) @ [flat_sample]))"
proof -
  have h1: "map (\<lambda>t. extractFeatures (Some 44100) (snd t))
       (((no_random, peaked_frame) # replicate 99 (no_random, flat_frame)) @ [(no_random, flat_frame)])
     = map Inr ((peaked_sample # replicate 99 flat_sample) @ [flat_sample])"
    by (simp add: extractFeatures_flat extractFeatures_peaked)
  have h2: "9 \<le> length ((no_random, peaked_frame) # replicate 99 (no_random, flat_frame))"
    by simp
  have h3: "length ((no_random, peaked_frame) # replicate 99 (no_random, flat_frame)) = 100"
    by simp
  from h1 h2 h3 classification_before_eviction [OF h1 h2, of None initial]
  show ?thesis by blast
qed

text \<open>One frame with a peaked spectrum, then 100 frames with a flatter one. The 100 most recent frames alone classify as sad; the tick of the 101st frame averages all 101 and sets happy.\<close>

theorem aggregate_101_counterexample:
  "map (\<lambda>t. extractFeatures (Some 44100) (snd t))
       (replicate 99 (no_random, flat_frame) @ [(no_random, flat_frame)])
     = map Inr (replicate 99 flat_sample @ [flat_sample])
   \<and> classify (replicate 99 flat_sample @ [flat_sample]) = Sad
   \<and> detectedEmotion (run_ticks (startRecording None (Some 44100) initial)
        (((no_random, peaked_frame) # replicate 99 (no_random, flat_frame)) @ [(no_random, flat_frame)]))
      = Some Happy"
proof -
  let ?c = "startRecording None (Some 44100) initial"
  have m: "map (\<lambda>t. extractFeatures (audioContextRef ?c) (snd t))
       (((no_random, peaked_frame) # replicate 99 (no_random, flat_frame)) @ [(no_random, flat_frame)])
     = map Inr ((peaked_sample # replicate 99 flat_sample) @ [flat_sample])"
    by (simp add: extractFeatures_flat extractFeatures_peaked)
  have "detectedEmotion (run_ticks ?c
          (((no_random, peaked_frame) # replicate 99 (no_random, flat_frame)) @ [(no_random, flat_frame)]))
        = Some (classify (drop (length (emotionSamplesRef ?c @ (peaked_sample # replicate 99 flat_sample)) - 100)
                   (emotionSamplesRef ?c @ (peaked_sample # replicate 99 flat_sample)) @ [flat_sample]))"
    using _ _ m by (rule run_ticks_last_label) simp_all
  then have "detectedEmotion (run_ticks ?c
          (((no_random, peaked_frame) # replicate 99 (no_random, flat_frame)) @ [(no_random, flat_frame)]))
        = Some Happy"
    using classify_peaked_101 by simp
  moreover have "map (\<lambda>t. extractFeatures (Some 44100) (snd t))
       (replicate 99 (no_random, flat_frame) @ [(no_random, flat_frame)])
     = map Inr (replicate 99 flat_sample @ [flat_sample])"
    by (simp add: extractFeatures_flat)
  ultimately show ?thesis using classify_flat_100 by blast
qed

subsection \<open>C8: the label does not depend on the random numbers\<close>

text \<open>
  Claim C8. Two fresh components that receive the same frames end with the same label,
  whatever numbers \<open>Math.random\<close> returns to \<open>updateWaveform\<close> in each of them.
\<close>

theorem label_deterministic:
  assumes "map snd ts1 = map snd ts2"
  shows "detectedEmotion (run_ticks (startRecording user1 (Some sr) initial) ts1)
           = detectedEmotion (run_ticks (startRecording user2 (Some sr) initial) ts2)"
proof -
  have "classifier_view (startRecording user1 (Some sr) initial)
          = classifier_view (startRecording user2 (Some sr) initial)"
    by (simp add: classifier_view_def)
  from classifier_view_run [OF this assms] show ?thesis
    by (simp add: classifier_view_def)
qed

text \<open>The theorem at two runs of ten silent frames with different random numbers.\<close>

theorem label_deterministic_witness:
  "map snd (replicate 10 (no_random, silent_frame)) = map snd (replicate 10 (half_random, silent_frame))
   \<and> no_random \<noteq> half_random
   \<and> detectedEmotion (run_ticks (startRecording None (Some 44100) initial)
        (replicate 10 (no_random, silent_frame)))
      = detectedEmotion (run_ticks (startRecording None (Some 44100) initial)
        (replicate 10 (half_random, silent_frame)))"
proof -
  have h: "map snd (replicate 10 (no_random, silent_frame))
             = map snd (replicate 10 (half_random, silent_frame))" by simp
  have "no_random 0 \<noteq> half_random 0" by (simp add: no_random_def half_random_def)
  then have d: "no_random \<noteq> half_random" by auto
  from h d label_deterministic [OF h, of None 44100 None] show ?thesis by blast
qed

subsection \<open>C10: the emotion saved with the note\<close>

text \<open>
  Claim C10 says that the emotion saved with the note is the last label of the session,
  neutral when there is none. The stop handler reads the \<open>detectedEmotion\<close> of the render
  in which \<open>startRecording\<close> was called, not the current one. So the note of a first
  session is saved with neutral and a duration of 0 whatever the frames were; a session of
  ten silent frames ends with the label sad, and its note says neutral.
\<close>

theorem persisted_emotion_is_stale:
  "fst (stop_and_save Saved (run_ticks (startRecording (Some u) (Some sr) initial) ts))
     = Some \<lparr>user_id = u, emotion = Neutral, duration = 0\<rparr>
   \<and> detectedEmotion recorded_session = Some Sad
   \<and> recordingTime recorded_session = 2
   \<and> fst (stop_and_save Saved recorded_session)
       = Some \<lparr>user_id = ''u1'', emotion = Neutral, duration = 0\<rparr>"
proof -
  have "isRecording recorded_session"
    by (simp add: recorded_session_def startRecording_def)
  moreover have "mediaRecorderRef recorded_session
        = Some \<lparr>cap_detectedEmotion = None, cap_recordingTime = 0, cap_user = Some ''u1''\<rparr>"
    by (simp add: recorded_session_def startRecording_def initial_def)
  ultimately have "fst (stop_and_save Saved recorded_session)
       = Some \<lparr>user_id = ''u1'', emotion = Neutral, duration = 0\<rparr>"
    by (simp add: stop_and_save_def stopRecording_def onstop_def Let_def)
  moreover have "recordingTime recorded_session = 2"
    by (simp add: recorded_session_def startRecording_def initial_def)
  ultimately show ?thesis using recorded_session_label stale_note by simp
qed

end
